theory Spec2Isabelle
  imports Main
begin

section \<open>Data model\<close>

text \<open>
  Go strings and byte slices are both sequences of bytes, and the conversions
  \<^verbatim>\<open>[]byte(s)\<close> and \<^verbatim>\<open>string(b)\<close> keep every byte, so both are \<open>char list\<close>.
  A \<^verbatim>\<open>time.Time\<close> is a count of nanoseconds, a \<^verbatim>\<open>time.Duration\<close> likewise.
\<close>

type_synonym bytes = string
type_synonym time = int
type_synonym duration = int

definition Second :: duration where
  "Second = 1000000000"

definition Minute :: duration where
  "Minute = 60 * Second"

definition Hour :: duration where
  "Hour = 60 * Minute"

text \<open>The three package variables of the lock (\<^verbatim>\<open>LockExpiration\<close> is declared and never read).\<close>

definition LockExpiration :: duration where
  "LockExpiration = 2 * Minute"

definition LockPollInterval :: duration where
  "LockPollInterval = 1 * Second"

definition LockTimeout :: duration where
  "LockTimeout = 15 * Second"

text \<open>
  Go error values: \<^verbatim>\<open>fs.ErrNotExist\<close>, badger's \<^verbatim>\<open>ErrKeyNotFound\<close>, an error made by
  \<^verbatim>\<open>errors.New\<close> or \<^verbatim>\<open>fmt.Errorf\<close> (with its message), and any error handed back by a
  library. A returned \<^verbatim>\<open>error\<close> is an \<open>error option\<close>, \<open>None\<close> for \<^verbatim>\<open>nil\<close>.
\<close>

datatype error = ErrNotExist | ErrKeyNotFound | Errors_New string | Lib_Error string

text \<open>A call either returns or panics; nothing in the package recovers a panic.\<close>

datatype 'a outcome = Panic | Ret 'a

record KeyInfo =
  Key :: string
  Modified :: time
  Size :: int
  IsTerminal :: bool

text \<open>The zero \<^verbatim>\<open>time.Time\<close> (1 January of year 1, UTC) and the zero \<^verbatim>\<open>KeyInfo\<close>.\<close>

definition zero_Time :: time where
  "zero_Time = - 62135596800 * Second"

definition zero_KeyInfo :: KeyInfo where
  "zero_KeyInfo = \<lparr>Key = [], Modified = zero_Time, Size = 0, IsTerminal = False\<rparr>"

text \<open>The two fields of \<^verbatim>\<open>minio.ObjectInfo\<close> that \<^verbatim>\<open>Stat\<close> reads.\<close>

record ObjectInfo =
  oi_Size :: int
  LastModified :: time

subsection \<open>The embedded cache database\<close>

text \<open>
  Badger is a library outside the repository. Its store is modelled as the
  specification describes a cache entry: a payload with a time to live, visible to
  readers only while the clock is before creation time plus TTL. An open store takes
  every key, and reading the value of an item that was found succeeds. The handle
  \<^verbatim>\<open>db\<close> is \<open>None\<close> when it is the nil pointer.
\<close>

record Entry =
  Value :: bytes
  ExpiresAt :: time

type_synonym badger_DB = "string \<rightharpoonup> Entry"

text \<open>
  What a transaction method (\<^verbatim>\<open>View\<close>, \<^verbatim>\<open>Update\<close>) of the library does when its receiver
  is the nil handle is the library's business. Badger's methods read a field of the
  receiver before anything else, which on the nil handle is a nil dereference: they
  panic (\<open>Nil_Panics\<close>). \<open>Nil_Returns\<close> is a library that would test its receiver and
  return an error instead.
\<close>

datatype nil_txn = Nil_Panics | Nil_Returns error

subsection \<open>The world and the libraries\<close>

text \<open>
  The requests sent to the remote store, in order, are recorded in \<open>calls\<close>; the remote
  store itself is an abstract state \<open>'r\<close> that only the client's operations read and change.
\<close>

datatype call =
    Call_BucketExists string
  | Call_GetObject string string
  | Call_ReadAll
  | Call_PutObject string string bytes
  | Call_RemoveObject string string
  | Call_StatObject string string

record 'r world =
  clock :: time
  db :: "badger_DB option"
  remote :: 'r
  calls :: "call list"

text \<open>
  The pure functions of Go's libraries that the package calls: RFC3339 formatting and
  parsing of a time, JSON encoding of a \<^verbatim>\<open>KeyInfo\<close> (\<^verbatim>\<open>json.Unmarshal\<close> writes into
  the value it is given and may fail), the secretbox sealing and opening used by the
  encrypting transform, and the behaviour of badger on a nil handle.
\<close>

record lib =
  time_Format :: "time \<Rightarrow> string"
  time_Parse :: "string \<Rightarrow> time option"
  json_Marshal :: "KeyInfo \<Rightarrow> error + bytes"
  json_Unmarshal :: "bytes \<Rightarrow> KeyInfo \<Rightarrow> KeyInfo \<times> error option"
  secretbox_Seal :: "bytes \<Rightarrow> bytes \<Rightarrow> bytes"
  secretbox_Open :: "bytes \<Rightarrow> bytes \<Rightarrow> bytes option"
  nil_DB :: nil_txn

text \<open>
  The minio client, as the operations the package calls on it. \<^verbatim>\<open>GetObject\<close> returns a
  pair of an object handle \<open>'o\<close> and an error, as in Go, because \<^verbatim>\<open>Lock\<close> reads the
  handle also when the error is not nil. \<open>ReadAll\<close> is \<^verbatim>\<open>ioutil.ReadAll\<close> on such a handle.
  A request takes time: \<open>latency\<close> is the time the request that led to a remote state took.
\<close>

record ('r, 'o) Client =
  BucketExists :: "string \<Rightarrow> 'r \<Rightarrow> (error + bool) \<times> 'r"
  GetObject :: "string \<Rightarrow> string \<Rightarrow> 'r \<Rightarrow> ('o \<times> error option) \<times> 'r"
  ReadAll :: "'o \<Rightarrow> 'r \<Rightarrow> (error + bytes) \<times> 'r"
  PutObject :: "string \<Rightarrow> string \<Rightarrow> bytes \<Rightarrow> 'r \<Rightarrow> error option \<times> 'r"
  RemoveObject :: "string \<Rightarrow> string \<Rightarrow> 'r \<Rightarrow> error option \<times> 'r"
  StatObject :: "string \<Rightarrow> string \<Rightarrow> 'r \<Rightarrow> (error + ObjectInfo) \<times> 'r"
  latency :: "'r \<Rightarrow> duration"

text \<open>The two implementations of the interface \<^verbatim>\<open>IO\<close>; the second holds its 32-byte key.\<close>

datatype IO = CleartextIO | SecretBoxIO bytes

record S3Opts =
  Endpoint :: string
  Bucket :: string
  AccessKeyID :: string
  SecretAccessKey :: string
  ObjPrefix :: string
  EncryptionKey :: "bytes option"

record ('r, 'o) S3Storage =
  prefix :: string
  bucket :: string
  s3client :: "('r, 'o) Client"
  iowrap :: IO

text \<open>
  Modelled from the spec: the methods of \<^verbatim>\<open>CleartextIO\<close> and \<^verbatim>\<open>SecretBoxIO\<close>, whose file
  is not among the sources. The cleartext variant is the identity transform; the
  authenticated variant seals on the way out and fails on the way in when the stored
  bytes do not open (tag does not verify, nonce malformed).
\<close>

fun IO_ByteReader :: "lib \<Rightarrow> IO \<Rightarrow> bytes \<Rightarrow> bytes" where
  "IO_ByteReader L CleartextIO v = v"
| "IO_ByteReader L (SecretBoxIO k) v = secretbox_Seal L k v"

fun IO_WrapReader :: "lib \<Rightarrow> IO \<Rightarrow> bytes \<Rightarrow> error + bytes" where
  "IO_WrapReader L CleartextIO raw = Inr raw"
| "IO_WrapReader L (SecretBoxIO k) raw =
     (case secretbox_Open L k raw of
        None \<Rightarrow> Inl (Errors_New ''AuthenticationFailed'')
      | Some plain \<Rightarrow> Inr plain)"

section \<open>cache.go\<close>

text \<open>
  \<^verbatim>\<open>getCacheDb\<close> drops the error of \<^verbatim>\<open>badger.Open\<close> and returns the handle it was given
  with it, which is nil when opening failed.
\<close>

definition getCacheDb :: "error + badger_DB \<Rightarrow> badger_DB option" where
  "getCacheDb opened = (case opened of Inl err \<Rightarrow> None | Inr d \<Rightarrow> Some d)"

definition txn_Get :: "badger_DB \<Rightarrow> time \<Rightarrow> string \<Rightarrow> error + Entry" where
  "txn_Get d now key =
     (case d key of
        None \<Rightarrow> Inl ErrKeyNotFound
      | Some e \<Rightarrow> if now < ExpiresAt e then Inr e else Inl ErrKeyNotFound)"

definition txn_SetEntry :: "badger_DB \<Rightarrow> time \<Rightarrow> string \<Rightarrow> bytes \<Rightarrow> duration \<Rightarrow> badger_DB" where
  "txn_SetEntry d now key data ttl = d(key \<mapsto> \<lparr>Value = data, ExpiresAt = now + ttl\<rparr>)"

text \<open>
  \<^verbatim>\<open>db.View(fn)\<close> and \<^verbatim>\<open>db.Update(fn)\<close>: on an open database the closure runs and its
  result is relayed; on the nil handle the library decides.
\<close>

definition db_txn :: "lib \<Rightarrow> badger_DB option \<Rightarrow> (badger_DB \<Rightarrow> 'a) \<Rightarrow> (error + 'a) outcome" where
  "db_txn L h fn =
     (case h of
        None \<Rightarrow> (case nil_DB L of Nil_Panics \<Rightarrow> Panic | Nil_Returns e \<Rightarrow> Ret (Inl e))
      | Some d \<Rightarrow> Ret (Inr (fn d)))"

text \<open>\<^verbatim>\<open>setCacheEntry\<close>: both errors go to \<^verbatim>\<open>handleCacheError\<close>, which does nothing.\<close>

definition setCacheEntry :: "lib \<Rightarrow> string \<Rightarrow> bytes \<Rightarrow> duration \<Rightarrow> 'r world \<Rightarrow> 'r world outcome" where
  "setCacheEntry L key data ttl w =
     (case db_txn L (db w) (\<lambda>d. txn_SetEntry d (clock w) key data ttl) of
        Panic \<Rightarrow> Panic
      | Ret (Inl err) \<Rightarrow> Ret w
      | Ret (Inr d') \<Rightarrow> Ret (w\<lparr>db := Some d'\<rparr>))"

text \<open>\<^verbatim>\<open>getCacheEntry\<close>: a pointer to the value as a string, nil on any error.\<close>

definition getCacheEntry :: "lib \<Rightarrow> string \<Rightarrow> 'r world \<Rightarrow> string option outcome" where
  "getCacheEntry L key w =
     (case db_txn L (db w) (\<lambda>d. txn_Get d (clock w) key) of
        Panic \<Rightarrow> Panic
      | Ret (Inl err) \<Rightarrow> Ret None
      | Ret (Inr (Inl err)) \<Rightarrow> Ret None
      | Ret (Inr (Inr item)) \<Rightarrow> Ret (Some (Value item)))"

text \<open>\<^verbatim>\<open>isCacheEntryExistent\<close>: whether the transaction returned no error.\<close>

definition isCacheEntryExistent :: "lib \<Rightarrow> string \<Rightarrow> 'r world \<Rightarrow> bool outcome" where
  "isCacheEntryExistent L key w =
     (case db_txn L (db w) (\<lambda>d. txn_Get d (clock w) key) of
        Panic \<Rightarrow> Panic
      | Ret (Inl err) \<Rightarrow> Ret False
      | Ret (Inr (Inl err)) \<Rightarrow> Ret False
      | Ret (Inr (Inr item)) \<Rightarrow> Ret True)"

section \<open>The storage\<close>

subsection \<open>Calls on the client\<close>

definition s3_BucketExists :: "('r, 'o) S3Storage \<Rightarrow> string \<Rightarrow> 'r world \<Rightarrow> (error + bool) \<times> 'r world" where
  "s3_BucketExists gs b w =
     (let (res, r') = BucketExists (s3client gs) b (remote w)
      in (res, w\<lparr>clock := clock w + latency (s3client gs) r', remote := r', calls := calls w @ [Call_BucketExists b]\<rparr>))"

definition s3_GetObject :: "('r, 'o) S3Storage \<Rightarrow> string \<Rightarrow> 'r world \<Rightarrow> ('o \<times> error option) \<times> 'r world" where
  "s3_GetObject gs name w =
     (let (res, r') = GetObject (s3client gs) (bucket gs) name (remote w)
      in (res, w\<lparr>clock := clock w + latency (s3client gs) r', remote := r', calls := calls w @ [Call_GetObject (bucket gs) name]\<rparr>))"

definition s3_ReadAll :: "('r, 'o) S3Storage \<Rightarrow> 'o \<Rightarrow> 'r world \<Rightarrow> (error + bytes) \<times> 'r world" where
  "s3_ReadAll gs obj w =
     (let (res, r') = ReadAll (s3client gs) obj (remote w)
      in (res, w\<lparr>clock := clock w + latency (s3client gs) r', remote := r', calls := calls w @ [Call_ReadAll]\<rparr>))"

definition s3_PutObject :: "('r, 'o) S3Storage \<Rightarrow> string \<Rightarrow> bytes \<Rightarrow> 'r world \<Rightarrow> error option \<times> 'r world" where
  "s3_PutObject gs name body w =
     (let (res, r') = PutObject (s3client gs) (bucket gs) name body (remote w)
      in (res, w\<lparr>clock := clock w + latency (s3client gs) r', remote := r', calls := calls w @ [Call_PutObject (bucket gs) name body]\<rparr>))"

definition s3_RemoveObject :: "('r, 'o) S3Storage \<Rightarrow> string \<Rightarrow> 'r world \<Rightarrow> error option \<times> 'r world" where
  "s3_RemoveObject gs name w =
     (let (res, r') = RemoveObject (s3client gs) (bucket gs) name (remote w)
      in (res, w\<lparr>clock := clock w + latency (s3client gs) r', remote := r', calls := calls w @ [Call_RemoveObject (bucket gs) name]\<rparr>))"

definition s3_StatObject :: "('r, 'o) S3Storage \<Rightarrow> string \<Rightarrow> 'r world \<Rightarrow> (error + ObjectInfo) \<times> 'r world" where
  "s3_StatObject gs name w =
     (let (res, r') = StatObject (s3client gs) (bucket gs) name (remote w)
      in (res, w\<lparr>clock := clock w + latency (s3client gs) r', remote := r', calls := calls w @ [Call_StatObject (bucket gs) name]\<rparr>))"

definition time_Sleep :: "duration \<Rightarrow> 'r world \<Rightarrow> 'r world" where
  "time_Sleep d w = w\<lparr>clock := clock w + d\<rparr>"

subsection \<open>Object names\<close>

definition objName :: "('r, 'o) S3Storage \<Rightarrow> string \<Rightarrow> string" where
  "objName gs key = prefix gs @ ''/'' @ key"

definition objLockName :: "('r, 'o) S3Storage \<Rightarrow> string \<Rightarrow> string" where
  "objLockName gs key = objName gs key @ ''.lock''"

subsection \<open>Lock and Unlock\<close>

definition putLockFile :: "lib \<Rightarrow> ('r, 'o) S3Storage \<Rightarrow> string \<Rightarrow> 'r world \<Rightarrow> error option \<times> 'r world" where
  "putLockFile L gs key w = s3_PutObject gs (objLockName gs key) (time_Format L (clock w)) w"

text \<open>
  The \<^verbatim>\<open>for\<close> loop of \<^verbatim>\<open>Lock\<close>, one iteration for each unit of fuel; \<open>None\<close> when the fuel
  is used up with the loop still running. The \<^verbatim>\<open>continue\<close> after a failed read goes
  straight to the next iteration.
\<close>

fun Lock_loop :: "nat \<Rightarrow> lib \<Rightarrow> ('r, 'o) S3Storage \<Rightarrow> string \<Rightarrow> time \<Rightarrow> 'r world \<Rightarrow> (error option \<times> 'r world) option" where
  "Lock_loop 0 L gs key startedAt w = None"
| "Lock_loop (Suc n) L gs key startedAt w =
     (case s3_GetObject gs (objLockName gs key) w of
        ((obj, None), w1) \<Rightarrow> Some (putLockFile L gs key w1)
      | ((obj, Some err), w1) \<Rightarrow>
          (case s3_ReadAll gs obj w1 of
             (Inl err, w2) \<Rightarrow> Lock_loop n L gs key startedAt w2
           | (Inr buf, w2) \<Rightarrow>
               (case time_Parse L buf of
                  None \<Rightarrow> Some (putLockFile L gs key w2)
                | Some lt \<Rightarrow>
                    if lt + LockTimeout < clock w2 then Some (putLockFile L gs key w2)
                    else if startedAt + LockTimeout < clock w2
                      then Some (Some (Errors_New ''acquiring lock failed''), w2)
                    else Lock_loop n L gs key startedAt (time_Sleep LockPollInterval w2))))"

definition Lock :: "nat \<Rightarrow> lib \<Rightarrow> ('r, 'o) S3Storage \<Rightarrow> string \<Rightarrow> 'r world \<Rightarrow> (error option \<times> 'r world) outcome option" where
  "Lock n L gs key w =
     (case isCacheEntryExistent L key w of
        Panic \<Rightarrow> Some Panic
      | Ret True \<Rightarrow> Some (Ret (None, w))
      | Ret False \<Rightarrow> map_option Ret (Lock_loop n L gs key (clock w) w))"

definition Unlock :: "lib \<Rightarrow> ('r, 'o) S3Storage \<Rightarrow> string \<Rightarrow> 'r world \<Rightarrow> (error option \<times> 'r world) outcome" where
  "Unlock L gs key w =
     (case isCacheEntryExistent L key w of
        Panic \<Rightarrow> Panic
      | Ret True \<Rightarrow> Ret (None, w)
      | Ret False \<Rightarrow> Ret (s3_RemoveObject gs (objLockName gs key) w))"

subsection \<open>Store, Load and Stat\<close>

definition Store :: "lib \<Rightarrow> ('r, 'o) S3Storage \<Rightarrow> string \<Rightarrow> bytes \<Rightarrow> 'r world \<Rightarrow> error option \<times> 'r world" where
  "Store L gs key val w = s3_PutObject gs (objName gs key) (IO_ByteReader L (iowrap gs) val) w"

text \<open>
  The part of \<^verbatim>\<open>Load\<close> after the cache lookup: get the object, read it through the
  transform, cache the bytes for one hour, return them. (The lone \<^verbatim>\<open>g\<close> on the line
  before \<^verbatim>\<open>GetObject\<close> in the source is no statement and is left out.)
\<close>

definition Load_remote :: "lib \<Rightarrow> ('r, 'o) S3Storage \<Rightarrow> string \<Rightarrow> 'r world \<Rightarrow> ((error + bytes) \<times> 'r world) outcome" where
  "Load_remote L gs key w =
     (case s3_GetObject gs (objName gs key) w of
        ((r, Some err), w1) \<Rightarrow> Ret (Inl ErrNotExist, w1)
      | ((r, None), w1) \<Rightarrow>
          (case s3_ReadAll gs r w1 of
             (Inl err, w2) \<Rightarrow> Ret (Inl ErrNotExist, w2)
           | (Inr raw, w2) \<Rightarrow>
               (case IO_WrapReader L (iowrap gs) raw of
                  Inl err \<Rightarrow> Ret (Inl ErrNotExist, w2)
                | Inr buf \<Rightarrow>
                    (case setCacheEntry L key buf (1 * Hour) w2 of
                       Panic \<Rightarrow> Panic
                     | Ret w3 \<Rightarrow> Ret (Inr buf, w3)))))"

definition Load :: "lib \<Rightarrow> ('r, 'o) S3Storage \<Rightarrow> string \<Rightarrow> 'r world \<Rightarrow> ((error + bytes) \<times> 'r world) outcome" where
  "Load L gs key w =
     (case isCacheEntryExistent L key w of
        Panic \<Rightarrow> Panic
      | Ret True \<Rightarrow>
          (case getCacheEntry L key w of
             Panic \<Rightarrow> Panic
           | Ret (Some rawKi) \<Rightarrow> Ret (Inr rawKi, w)
           | Ret None \<Rightarrow> Load_remote L gs key w)
      | Ret False \<Rightarrow> Load_remote L gs key w)"

text \<open>
  The part of \<^verbatim>\<open>Stat\<close> after the cache lookup, on the \<^verbatim>\<open>ki\<close> the lookup left behind.
\<close>

definition Stat_remote :: "lib \<Rightarrow> ('r, 'o) S3Storage \<Rightarrow> string \<Rightarrow> KeyInfo \<Rightarrow> 'r world \<Rightarrow> ((KeyInfo \<times> error option) \<times> 'r world) outcome" where
  "Stat_remote L gs key ki w =
     (case s3_StatObject gs (objName gs key) w of
        (Inl err, w1) \<Rightarrow> Ret ((ki, Some err), w1)
      | (Inr oi, w1) \<Rightarrow>
          (let ki' = ki\<lparr>Key := key, Size := oi_Size oi, Modified := LastModified oi, IsTerminal := True\<rparr>
           in case json_Marshal L ki' of
                Inl err \<Rightarrow> Ret ((ki', None), w1)
              | Inr jsonKi \<Rightarrow>
                  (case setCacheEntry L (key @ ''_ki'') jsonKi (1 * Hour) w1 of
                     Panic \<Rightarrow> Panic
                   | Ret w2 \<Rightarrow> Ret ((ki', None), w2))))"

definition Stat :: "lib \<Rightarrow> ('r, 'o) S3Storage \<Rightarrow> string \<Rightarrow> 'r world \<Rightarrow> ((KeyInfo \<times> error option) \<times> 'r world) outcome" where
  "Stat L gs key w =
     (case isCacheEntryExistent L (key @ ''_ki'') w of
        Panic \<Rightarrow> Panic
      | Ret True \<Rightarrow>
          (case getCacheEntry L (key @ ''_ki'') w of
             Panic \<Rightarrow> Panic
           | Ret (Some rawKi) \<Rightarrow>
               (case json_Unmarshal L rawKi zero_KeyInfo of
                  (ki, None) \<Rightarrow> Ret ((ki, None), w)
                | (ki, Some err) \<Rightarrow> Stat_remote L gs key ki w)
           | Ret None \<Rightarrow> Stat_remote L gs key zero_KeyInfo w)
      | Ret False \<Rightarrow> Stat_remote L gs key zero_KeyInfo w)"

subsection \<open>Construction\<close>

definition InvalidKeyLength :: error where
  "InvalidKeyLength = Errors_New ''encryption key must have exactly 32 bytes''"

text \<open>
  \<^verbatim>\<open>NewS3Storage\<close>; \<open>minio_New\<close> stands for \<^verbatim>\<open>minio.New\<close>, given the endpoint and the
  two credentials. The two log lines are left out.
\<close>

definition NewS3Storage :: "(string \<Rightarrow> string \<Rightarrow> string \<Rightarrow> error + ('r, 'o) Client) \<Rightarrow> S3Opts \<Rightarrow> 'r world \<Rightarrow> (error + ('r, 'o) S3Storage) \<times> 'r world" where
  "NewS3Storage minio_New opts w =
     (case (case EncryptionKey opts of
              None \<Rightarrow> Inr CleartextIO
            | Some k \<Rightarrow>
                if length k = 0 then Inr CleartextIO
                else if length k \<noteq> 32 then Inl InvalidKeyLength
                else Inr (SecretBoxIO k)) of
        Inl err \<Rightarrow> (Inl err, w)
      | Inr io \<Rightarrow>
          (case minio_New (Endpoint opts) (AccessKeyID opts) (SecretAccessKey opts) of
             Inl err \<Rightarrow> (Inl err, w)
           | Inr c \<Rightarrow>
               (let gs = \<lparr>prefix = ObjPrefix opts, bucket = Bucket opts, s3client = c, iowrap = io\<rparr>
                in case s3_BucketExists gs (Bucket opts) w of
                     (Inl err, w1) \<Rightarrow> (Inl err, w1)
                   | (Inr ok, w1) \<Rightarrow>
                       if \<not> ok
                       then (Inl (Errors_New (''S3 bucket '' @ Bucket opts @ '' does not exist'')), w1)
                       else (Inr gs, w1))))"

section \<open>Concrete libraries, clients and worlds\<close>

text \<open>
  Instances of the parameters, for evaluating the definitions: three instants with
  their RFC3339 strings, a one-field JSON encoding, a transform that prefixes the key,
  and a client over an in-memory store that answers as the minio client does.
  Its \<^verbatim>\<open>GetObject\<close> only tests the object name: for a name it accepts it returns a
  handle and no error, whether or not the object exists, and the object is fetched when
  the handle is read; for a name it rejects it returns the nil handle (\<open>None\<close>) and an
  error, and reading the nil handle fails. The other requests reject the same names.
  Of the tests on a name, the one for valid UTF-8 is left out, and so is the trimming of
  white space (the names \<^verbatim>\<open>objName\<close> builds contain a slash). Each request takes \<open>lat\<close>.
\<close>

definition T0 :: time where
  "T0 = 1704067200 * Second"

definition demo_Format :: "time \<Rightarrow> string" where
  "demo_Format t =
     (if t div Second = 1704067200 then ''2024-01-01T00:00:00Z''
      else if t div Second = 1704067220 then ''2024-01-01T00:00:20Z''
      else ''2024-01-01T01:00:00Z'')"

definition demo_Parse :: "string \<Rightarrow> time option" where
  "demo_Parse s =
     (if s = ''2024-01-01T00:00:00Z'' then Some (1704067200 * Second)
      else if s = ''2024-01-01T00:00:20Z'' then Some (1704067220 * Second)
      else if s = ''2024-01-01T01:00:00Z'' then Some (1704070800 * Second)
      else None)"

definition demo_lib :: "nil_txn \<Rightarrow> lib" where
  "demo_lib nd =
     \<lparr>time_Format = demo_Format,
      time_Parse = demo_Parse,
      json_Marshal = (\<lambda>ki. Inr (''{key:'' @ Key ki @ ''}'')),
      json_Unmarshal = (\<lambda>raw ki. (ki, Some (Lib_Error ''invalid character''))),
      secretbox_Seal = (\<lambda>k v. k @ v),
      secretbox_Open = (\<lambda>k raw. if take (length k) raw = k then Some (drop (length k) raw) else None),
      nil_DB = nd\<rparr>"

type_synonym mem = "string \<rightharpoonup> bytes"

definition valid_name :: "string \<Rightarrow> bool" where
  "valid_name name \<longleftrightarrow> name \<noteq> [] \<and> length name \<le> 1024"

definition invalid_name :: error where
  "invalid_name = Lib_Error ''Object name cannot be longer than 1024 characters''"

definition no_such_key :: error where
  "no_such_key = Lib_Error ''The specified key does not exist.''"

definition mem_client :: "duration \<Rightarrow> (mem, string option) Client" where
  "mem_client lat =
     \<lparr>BucketExists = (\<lambda>b r. (Inr True, r)),
      GetObject = (\<lambda>b name r.
        if valid_name name then ((Some name, None), r)
        else ((None, Some invalid_name), r)),
      ReadAll = (\<lambda>obj r.
        case obj of
          None \<Rightarrow> (Inl (Lib_Error ''Object is nil''), r)
        | Some name \<Rightarrow>
            (case r name of
               None \<Rightarrow> (Inl no_such_key, r)
             | Some body \<Rightarrow> (Inr body, r))),
      PutObject = (\<lambda>b name body r.
        if valid_name name then (None, r(name \<mapsto> body)) else (Some invalid_name, r)),
      RemoveObject = (\<lambda>b name r.
        if valid_name name then (None, r(name := None)) else (Some invalid_name, r)),
      StatObject = (\<lambda>b name r.
        if valid_name name
        then (case r name of
                None \<Rightarrow> (Inl no_such_key, r)
              | Some body \<Rightarrow> (Inr \<lparr>oi_Size = int (length body), LastModified = T0\<rparr>, r))
        else (Inl invalid_name, r)),
      latency = (\<lambda>r. lat)\<rparr>"

definition mem_gs :: "IO \<Rightarrow> duration \<Rightarrow> (mem, string option) S3Storage" where
  "mem_gs io lat = \<lparr>prefix = ''p'', bucket = ''certs'', s3client = mem_client lat, iowrap = io\<rparr>"

definition mem_world :: "time \<Rightarrow> badger_DB option \<Rightarrow> mem \<Rightarrow> mem world" where
  "mem_world t h r = \<lparr>clock = t, db = h, remote = r, calls = []\<rparr>"

text \<open>Worlds at the instant \<open>T0\<close>: an empty one, a cached certificate, a stored one, stored
  bytes that do not open, a lock file twenty seconds old with and without a cached entry
  for its key, and a world whose cache database failed to open. The key \<open>long_key\<close> gives
  a lock-object name of more than 1024 bytes.\<close>

definition empty_world :: "mem world" where
  "empty_world = mem_world T0 (Some Map.empty) Map.empty"

definition long_key :: string where
  "long_key = replicate 1100 (CHR ''a'')"

definition cached_world :: "mem world" where
  "cached_world = mem_world T0 (Some [''cert/a'' \<mapsto> \<lparr>Value = ''PEM'', ExpiresAt = T0 + Hour\<rparr>]) Map.empty"

definition stored_world :: "mem world" where
  "stored_world = mem_world T0 (Some Map.empty) [''p/cert/a'' \<mapsto> ''PEM'']"

definition sealed_world :: "mem world" where
  "sealed_world = mem_world T0 (Some Map.empty) [''p/cert/a'' \<mapsto> ''tampered'']"

definition expired_lock_world :: "mem world" where
  "expired_lock_world =
     mem_world (T0 + 20 * Second) (Some Map.empty) [''p/cert/a.lock'' \<mapsto> ''2024-01-01T00:00:00Z'']"

definition stale_lock_world :: "mem world" where
  "stale_lock_world =
     mem_world (T0 + 20 * Second)
       (Some [''cert/a'' \<mapsto> \<lparr>Value = ''PEM'', ExpiresAt = T0 + Hour\<rparr>])
       [''p/cert/a.lock'' \<mapsto> ''2024-01-01T00:00:00Z'']"

definition unopened_world :: "mem world" where
  "unopened_world = mem_world T0 (getCacheDb (Inl (Lib_Error ''Cannot acquire directory lock''))) Map.empty"

definition demo_opts :: "bytes option \<Rightarrow> S3Opts" where
  "demo_opts k =
     \<lparr>Endpoint = ''s3.example.com'', Bucket = ''certs'', AccessKeyID = ''id'', SecretAccessKey = ''secret'',
      ObjPrefix = ''p'', EncryptionKey = k\<rparr>"

section \<open>Properties\<close>

subsection \<open>The cache lookup and the frame of a request\<close>

lemma cached_exists:
  "db w = Some d \<Longrightarrow> d key = Some e \<Longrightarrow> clock w < ExpiresAt e \<Longrightarrow> isCacheEntryExistent L key w = Ret True"
  by (simp add: isCacheEntryExistent_def db_txn_def txn_Get_def)

lemma cached_get:
  "db w = Some d \<Longrightarrow> d key = Some e \<Longrightarrow> clock w < ExpiresAt e \<Longrightarrow> getCacheEntry L key w = Ret (Some (Value e))"
  by (simp add: getCacheEntry_def db_txn_def txn_Get_def)

lemma Load_cached:
  "db w = Some d \<Longrightarrow> d key = Some e \<Longrightarrow> clock w < ExpiresAt e \<Longrightarrow> Load L gs key w = Ret (Inr (Value e), w)"
  by (simp add: Load_def cached_exists cached_get)

lemma uncached_exists:
  "db w = Some d \<Longrightarrow> txn_Get d (clock w) key = Inl e \<Longrightarrow> isCacheEntryExistent L key w = Ret False"
  by (simp add: isCacheEntryExistent_def db_txn_def)

lemma s3_PutObject_frame:
  "s3_PutObject gs name body w = (res, w') \<Longrightarrow>
     db w' = db w \<and> calls w' = calls w @ [Call_PutObject (bucket gs) name body]
     \<and> res = fst (PutObject (s3client gs) (bucket gs) name body (remote w))"
  by (auto simp: s3_PutObject_def Let_def split: prod.splits)

lemma s3_GetObject_frame:
  "s3_GetObject gs name w = (res, w') \<Longrightarrow> db w' = db w \<and> calls w' = calls w @ [Call_GetObject (bucket gs) name]"
  by (auto simp: s3_GetObject_def Let_def split: prod.splits)

lemma s3_ReadAll_frame:
  "s3_ReadAll gs obj w = (res, w') \<Longrightarrow> db w' = db w \<and> calls w' = calls w @ [Call_ReadAll]"
  by (auto simp: s3_ReadAll_def Let_def split: prod.splits)

lemma s3_StatObject_frame:
  "s3_StatObject gs name w = (res, w') \<Longrightarrow> db w' = db w \<and> calls w' = calls w @ [Call_StatObject (bucket gs) name]"
  by (auto simp: s3_StatObject_def Let_def split: prod.splits)

subsection \<open>The retry after a failed read\<close>

lemma Lock_loop_spins:
  assumes inv: "I (remote w)"
    and step: "\<And>r. I r \<Longrightarrow>
       \<exists>obj e r'. GetObject (s3client gs) (bucket gs) (objLockName gs key) r = ((obj, Some e), r')
         \<and> (\<exists>e' r''. ReadAll (s3client gs) obj r' = (Inl e', r'') \<and> I r'')"
  shows "Lock_loop n L gs key t w = None"
  using inv
proof (induction n arbitrary: w)
  case 0
  show ?case by simp
next
  case (Suc n)
  from step [OF Suc.prems] obtain obj e r' e' r''
    where g: "GetObject (s3client gs) (bucket gs) (objLockName gs key) (remote w) = ((obj, Some e), r')"
      and r: "ReadAll (s3client gs) obj r' = (Inl e', r'')" and i: "I r''"
    by blast
  show ?case
    by (simp add: s3_GetObject_def s3_ReadAll_def g r Suc.IH i)
qed

lemma mem_rejected_step:
  "\<not> valid_name (objLockName (mem_gs io lat) key) \<Longrightarrow>
     \<exists>obj e r'. GetObject (s3client (mem_gs io lat)) (bucket (mem_gs io lat)) (objLockName (mem_gs io lat) key) r = ((obj, Some e), r')
         \<and> (\<exists>e' r''. ReadAll (s3client (mem_gs io lat)) obj r' = (Inl e', r''))"
  by (simp add: mem_gs_def mem_client_def valid_name_def)

lemma long_key_rejected: "\<not> valid_name (objLockName (mem_gs io lat) long_key)"
  by (simp add: valid_name_def objLockName_def objName_def mem_gs_def long_key_def)

subsection \<open>The polling path\<close>

text \<open>
  Where every handle that comes with an error can be read, and requests take no negative
  time, each turn of the loop either returns or sleeps for the poll interval, and the
  deadline test ends the loop: seventeen turns are enough for \<^verbatim>\<open>Lock\<close> to come to an
  end (with a result, or with the panic of the cache lookup).
\<close>

lemma Lock_loop_turn:
  assumes rd: "\<forall>r obj e r'. GetObject (s3client gs) (bucket gs) (objLockName gs key) r = ((obj, Some e), r')
         \<longrightarrow> (\<exists>buf r''. ReadAll (s3client gs) obj r' = (Inr buf, r''))"
    and lat: "\<forall>r. 0 \<le> latency (s3client gs) r"
  shows "(\<exists>res. Lock_loop (Suc m) L gs key t w = Some res)
     \<or> (\<exists>w'. Lock_loop (Suc m) L gs key t w = Lock_loop m L gs key t w'
            \<and> clock w + LockPollInterval \<le> clock w' \<and> clock w \<le> t + LockTimeout)"
proof -
  obtain obj e r1 where g: "GetObject (s3client gs) (bucket gs) (objLockName gs key) (remote w) = ((obj, e), r1)"
    by (metis surj_pair)
  show ?thesis
  proof (cases e)
    case None
    with g show ?thesis by (simp add: s3_GetObject_def)
  next
    case (Some err)
    with rd g obtain buf r2 where r: "ReadAll (s3client gs) obj r1 = (Inr buf, r2)"
      by blast
    from lat have l1: "0 \<le> latency (s3client gs) r1" and l2: "0 \<le> latency (s3client gs) r2"
      by simp_all
    show ?thesis
    proof (cases "time_Parse L buf")
      case None
      with g Some r show ?thesis by (simp add: s3_GetObject_def s3_ReadAll_def)
    next
      case (Some lt)
      let ?w2 = "w\<lparr>clock := clock w + latency (s3client gs) r1 + latency (s3client gs) r2, remote := r2,
                   calls := calls w @ [Call_GetObject (bucket gs) (objLockName gs key), Call_ReadAll]\<rparr>"
      show ?thesis
      proof (cases "lt + LockTimeout < clock ?w2 \<or> t + LockTimeout < clock ?w2")
        case True
        with g \<open>e = Some err\<close> r Some show ?thesis
          by (auto simp: s3_GetObject_def s3_ReadAll_def)
      next
        case False
        with g \<open>e = Some err\<close> r Some
        have "Lock_loop (Suc m) L gs key t w = Lock_loop m L gs key t (time_Sleep LockPollInterval ?w2)"
          by (simp add: s3_GetObject_def s3_ReadAll_def)
        moreover from l1 l2 have "clock w + LockPollInterval \<le> clock (time_Sleep LockPollInterval ?w2)"
          by (simp add: time_Sleep_def)
        moreover from False l1 l2 have "clock w \<le> t + LockTimeout"
          by simp
        ultimately show ?thesis by blast
      qed
    qed
  qed
qed

lemma Lock_loop_returns_when_readable:
  assumes rd: "\<forall>r obj e r'. GetObject (s3client gs) (bucket gs) (objLockName gs key) r = ((obj, Some e), r')
         \<longrightarrow> (\<exists>buf r''. ReadAll (s3client gs) obj r' = (Inr buf, r''))"
    and lat: "\<forall>r. 0 \<le> latency (s3client gs) r"
    and late: "t + LockTimeout < clock w + int n * LockPollInterval"
  shows "\<exists>res. Lock_loop (Suc n) L gs key t w = Some res"
  using late
proof (induction n arbitrary: w)
  case 0
  with Lock_loop_turn [OF rd lat, of 0 L t w] show ?case by auto
next
  case (Suc n)
  from Lock_loop_turn [OF rd lat, of "Suc n" L t w] show ?case
  proof
    assume "\<exists>res. Lock_loop (Suc (Suc n)) L gs key t w = Some res"
    then show ?thesis .
  next
    assume "\<exists>w'. Lock_loop (Suc (Suc n)) L gs key t w = Lock_loop (Suc n) L gs key t w'
            \<and> clock w + LockPollInterval \<le> clock w' \<and> clock w \<le> t + LockTimeout"
    then obtain w' where eq: "Lock_loop (Suc (Suc n)) L gs key t w = Lock_loop (Suc n) L gs key t w'"
      and adv: "clock w + LockPollInterval \<le> clock w'"
      by blast
    from Suc.prems adv have "t + LockTimeout < clock w' + int n * LockPollInterval"
      by (simp add: algebra_simps)
    from Suc.IH [OF this] eq show ?thesis by simp
  qed
qed

lemma Lock_returns_when_readable:
  assumes rd: "\<forall>r obj e r'. GetObject (s3client gs) (bucket gs) (objLockName gs key) r = ((obj, Some e), r')
         \<longrightarrow> (\<exists>buf r''. ReadAll (s3client gs) obj r' = (Inr buf, r''))"
    and lat: "\<forall>r. 0 \<le> latency (s3client gs) r"
  shows "\<exists>res. Lock 17 L gs key w = Some res"
proof -
  have "clock w + LockTimeout < clock w + int 16 * LockPollInterval"
    by (simp add: LockTimeout_def LockPollInterval_def Second_def)
  from Lock_loop_returns_when_readable [OF rd lat this, of L]
  obtain res where "Lock_loop 17 L gs key (clock w) w = Some res"
    by auto
  then show ?thesis
    by (cases "isCacheEntryExistent L key w") (auto simp: Lock_def split: bool.splits)
qed

subsection \<open>C1\<close>

text \<open>
  C1. For every key without a cache entry whose lock object is absent, so that reading
  it fails, \<^verbatim>\<open>Lock\<close> writes a lock object holding the current timestamp and returns
  success. The client hands out its handle without an error (as it does for every name
  it accepts, the object being fetched only when the handle is read), so the first turn
  of the loop goes to \<^verbatim>\<open>putLockFile\<close>: one \<^verbatim>\<open>PutObject\<close> of the formatted clock under the
  lock name, whose result \<^verbatim>\<open>Lock\<close> returns; the write succeeding, that is success.
\<close>

theorem Lock_absent_writes_lock:
  assumes nc: "isCacheEntryExistent L key w = Ret False"
    and get: "s3_GetObject gs (objLockName gs key) w = ((obj, None), w1)"
    and absent: "s3_ReadAll gs obj w1 = (Inl err, w2)"
    and put: "PutObject (s3client gs) (bucket gs) (objLockName gs key) (time_Format L (clock w1)) (remote w1) = (None, r')"
  shows "Lock (Suc n) L gs key w
     = Some (Ret (None, w1\<lparr>clock := clock w1 + latency (s3client gs) r', remote := r',
           calls := calls w1 @ [Call_PutObject (bucket gs) (objLockName gs key) (time_Format L (clock w1))]\<rparr>))"
  using nc get put
  by (simp add: Lock_def putLockFile_def s3_PutObject_def)

theorem Lock_absent_writes_lock_witness:
  "Lock (Suc 0) (demo_lib Nil_Panics) (mem_gs CleartextIO 0) ''cert/a'' empty_world
     = Some (Ret (None, empty_world
         \<lparr>remote := [''p/cert/a.lock'' \<mapsto> ''2024-01-01T00:00:00Z''],
          calls := [Call_GetObject ''certs'' ''p/cert/a.lock'',
                    Call_PutObject ''certs'' ''p/cert/a.lock'' ''2024-01-01T00:00:00Z'']\<rparr>))"
proof -
  let ?L = "demo_lib Nil_Panics" and ?gs = "mem_gs CleartextIO 0"
  let ?w1 = "empty_world\<lparr>calls := [Call_GetObject ''certs'' ''p/cert/a.lock'']\<rparr>"
  let ?w2 = "empty_world\<lparr>calls := [Call_GetObject ''certs'' ''p/cert/a.lock'', Call_ReadAll]\<rparr>"
  have nc: "isCacheEntryExistent ?L ''cert/a'' empty_world = Ret False"
    by (simp add: isCacheEntryExistent_def db_txn_def txn_Get_def empty_world_def mem_world_def)
  have get: "s3_GetObject ?gs (objLockName ?gs ''cert/a'') empty_world = ((Some ''p/cert/a.lock'', None), ?w1)"
    by (simp add: s3_GetObject_def objLockName_def objName_def mem_gs_def mem_client_def valid_name_def
        empty_world_def mem_world_def)
  have absent: "s3_ReadAll ?gs (Some ''p/cert/a.lock'') ?w1 = (Inl no_such_key, ?w2)"
    by (simp add: s3_ReadAll_def mem_gs_def mem_client_def valid_name_def empty_world_def mem_world_def)
  have put: "PutObject (s3client ?gs) (bucket ?gs) (objLockName ?gs ''cert/a'')
        (time_Format ?L (clock ?w1)) (remote ?w1) = (None, [''p/cert/a.lock'' \<mapsto> ''2024-01-01T00:00:00Z''])"
    by (simp add: mem_gs_def mem_client_def valid_name_def objLockName_def objName_def demo_lib_def
        demo_Format_def empty_world_def mem_world_def T0_def Second_def)
  from Lock_absent_writes_lock [OF nc get absent put, of 0] show ?thesis
    by (simp add: mem_gs_def mem_client_def valid_name_def objLockName_def objName_def demo_lib_def
        demo_Format_def empty_world_def mem_world_def T0_def Second_def)
qed

subsection \<open>C2\<close>

text \<open>
  C2. The claim: for every behaviour of the remote store \<^verbatim>\<open>Lock\<close> terminates, with a
  timeout error once the 15-second deadline has passed. The code checks the deadline only
  after a successful read and parse; the \<^verbatim>\<open>continue\<close> after a failed read skips both the
  sleep and the check. While the lock object can be neither fetched nor read (an invariant
  \<open>I\<close> of the remote state under the failing requests), \<^verbatim>\<open>Lock\<close> on an uncached key has not
  returned after any number of iterations, however much time the requests take. The
  client rejects the lock-object name of a long key in just this way.
\<close>

theorem Lock_never_returns:
  assumes "isCacheEntryExistent L key w = Ret False"
    and "I (remote w)"
    and "\<And>r. I r \<Longrightarrow>
       \<exists>obj e r'. GetObject (s3client gs) (bucket gs) (objLockName gs key) r = ((obj, Some e), r')
         \<and> (\<exists>e' r''. ReadAll (s3client gs) obj r' = (Inl e', r'') \<and> I r'')"
  shows "Lock n L gs key w = None"
  using assms(1) Lock_loop_spins [of I w gs key n L "clock w", OF assms(2) assms(3)]
  by (simp add: Lock_def)

theorem Lock_never_returns_witness:
  "Lock 100 (demo_lib Nil_Panics) (mem_gs CleartextIO Second) long_key empty_world = None"
proof (rule Lock_never_returns [where I = "\<lambda>r. True"])
  show "isCacheEntryExistent (demo_lib Nil_Panics) long_key empty_world = Ret False"
    by (simp add: isCacheEntryExistent_def db_txn_def txn_Get_def empty_world_def mem_world_def)
  show True ..
  fix r :: mem
  from mem_rejected_step [OF long_key_rejected, of CleartextIO Second r]
  show "\<exists>obj e r'. GetObject (s3client (mem_gs CleartextIO Second)) (bucket (mem_gs CleartextIO Second))
          (objLockName (mem_gs CleartextIO Second) long_key) r = ((obj, Some e), r')
        \<and> (\<exists>e' r''. ReadAll (s3client (mem_gs CleartextIO Second)) obj r' = (Inl e', r'') \<and> True)"
    by simp
qed

subsection \<open>C3\<close>

text \<open>
  C3, as stated: for every key whose lock object exists and holds a parsable timestamp
  older than 15 seconds, \<^verbatim>\<open>Lock\<close> overwrites it with a fresh lock and returns success.
  This fails for a key that has a cache entry: \<^verbatim>\<open>Lock\<close> returns success at once and the
  lock object, twenty seconds old, stays as it is.
\<close>

theorem Lock_expired_cached_counterexample:
  "remote stale_lock_world (objLockName (mem_gs CleartextIO 0) ''cert/a'') = Some ''2024-01-01T00:00:00Z''
   \<and> time_Parse (demo_lib Nil_Panics) ''2024-01-01T00:00:00Z'' = Some T0
   \<and> T0 + LockTimeout < clock stale_lock_world
   \<and> Lock 5 (demo_lib Nil_Panics) (mem_gs CleartextIO 0) ''cert/a'' stale_lock_world
        = Some (Ret (None, stale_lock_world))
   \<and> calls stale_lock_world = []"
  by (simp add: stale_lock_world_def mem_world_def mem_gs_def objLockName_def objName_def
      demo_lib_def demo_Parse_def T0_def LockTimeout_def Second_def Hour_def Minute_def
      Lock_def isCacheEntryExistent_def db_txn_def txn_Get_def)

text \<open>
  C3, amended: for every key without a cache entry whose lock object exists and holds a
  parsable timestamp \<open>lt\<close> with \<open>lt + 15s < now\<close>, \<^verbatim>\<open>Lock\<close> overwrites it with a lock
  holding the current timestamp and returns success, the write succeeding. The lock
  object counts as existing whichever way the client reports it: \<^verbatim>\<open>GetObject\<close> without
  an error (the write follows at once) or with one and a readable handle (the write
  follows the expiry test).
\<close>

theorem Lock_reclaims_expired:
  assumes nc: "isCacheEntryExistent L key w = Ret False"
    and get: "s3_GetObject gs (objLockName gs key) w = ((obj, e), w1)"
    and rd: "s3_ReadAll gs obj w1 = (Inr buf, w2)"
    and parse: "time_Parse L buf = Some lt"
    and expired: "lt + LockTimeout < clock w2"
    and w': "w' = (if e = None then w1 else w2)"
    and put: "PutObject (s3client gs) (bucket gs) (objLockName gs key) (time_Format L (clock w')) (remote w') = (None, r')"
  shows "\<exists>w''. Lock (Suc n) L gs key w = Some (Ret (None, w''))
           \<and> remote w'' = r'
           \<and> calls w'' = calls w' @ [Call_PutObject (bucket gs) (objLockName gs key) (time_Format L (clock w'))]"
proof (cases e)
  case None
  then show ?thesis
    using nc get w' put
    by (simp add: Lock_def putLockFile_def s3_PutObject_def)
next
  case (Some err)
  then show ?thesis
    using nc get rd parse expired w' put
    by (simp add: Lock_def putLockFile_def s3_PutObject_def)
qed

theorem Lock_reclaims_expired_witness:
  "Lock (Suc 0) (demo_lib Nil_Panics) (mem_gs CleartextIO 0) ''cert/a'' expired_lock_world
     = Some (Ret (None, expired_lock_world
         \<lparr>remote := [''p/cert/a.lock'' \<mapsto> ''2024-01-01T00:00:20Z''],
          calls := [Call_GetObject ''certs'' ''p/cert/a.lock'',
                    Call_PutObject ''certs'' ''p/cert/a.lock'' ''2024-01-01T00:00:20Z'']\<rparr>))"
proof -
  let ?L = "demo_lib Nil_Panics" and ?gs = "mem_gs CleartextIO 0"
  let ?w1 = "expired_lock_world\<lparr>calls := [Call_GetObject ''certs'' ''p/cert/a.lock'']\<rparr>"
  let ?w2 = "expired_lock_world\<lparr>calls := [Call_GetObject ''certs'' ''p/cert/a.lock'', Call_ReadAll]\<rparr>"
  have nc: "isCacheEntryExistent ?L ''cert/a'' expired_lock_world = Ret False"
    by (simp add: isCacheEntryExistent_def db_txn_def txn_Get_def expired_lock_world_def mem_world_def)
  have get: "s3_GetObject ?gs (objLockName ?gs ''cert/a'') expired_lock_world
       = ((Some ''p/cert/a.lock'', None), ?w1)"
    by (simp add: s3_GetObject_def objLockName_def objName_def mem_gs_def mem_client_def valid_name_def
        expired_lock_world_def mem_world_def)
  have rd: "s3_ReadAll ?gs (Some ''p/cert/a.lock'') ?w1 = (Inr ''2024-01-01T00:00:00Z'', ?w2)"
    by (simp add: s3_ReadAll_def mem_gs_def mem_client_def valid_name_def expired_lock_world_def mem_world_def)
  have parse: "time_Parse ?L ''2024-01-01T00:00:00Z'' = Some T0"
    by (simp add: demo_lib_def demo_Parse_def T0_def)
  have expired: "T0 + LockTimeout < clock ?w2"
    by (simp add: expired_lock_world_def mem_world_def LockTimeout_def Second_def)
  have w': "?w1 = (if (None::error option) = None then ?w1 else ?w2)"
    by simp
  have put: "PutObject (s3client ?gs) (bucket ?gs) (objLockName ?gs ''cert/a'')
        (time_Format ?L (clock ?w1)) (remote ?w1) = (None, [''p/cert/a.lock'' \<mapsto> ''2024-01-01T00:00:20Z''])"
    by (simp add: mem_gs_def mem_client_def valid_name_def objLockName_def objName_def demo_lib_def demo_Format_def
        expired_lock_world_def mem_world_def T0_def Second_def)
  have pl: "putLockFile ?L ?gs ''cert/a'' ?w1
      = (None, expired_lock_world
         \<lparr>remote := [''p/cert/a.lock'' \<mapsto> ''2024-01-01T00:00:20Z''],
          calls := [Call_GetObject ''certs'' ''p/cert/a.lock'',
                    Call_PutObject ''certs'' ''p/cert/a.lock'' ''2024-01-01T00:00:20Z'']\<rparr>)"
    by (simp add: putLockFile_def s3_PutObject_def
        mem_gs_def mem_client_def valid_name_def objLockName_def objName_def demo_lib_def demo_Format_def
        expired_lock_world_def mem_world_def T0_def Second_def)
  from Lock_reclaims_expired [OF nc get rd parse expired w' put, of 0]
  obtain w'' where "Lock (Suc 0) ?L ?gs ''cert/a'' expired_lock_world = Some (Ret (None, w''))"
    by auto
  then have "Lock (Suc 0) ?L ?gs ''cert/a'' expired_lock_world
      = Some (Ret (putLockFile ?L ?gs ''cert/a'' ?w1))"
    by (simp add: Lock_def nc get)
  then show ?thesis
    by (simp only: pl)
qed

subsection \<open>C4\<close>

text \<open>
  C4. For every key that has a cache entry (present and not expired), \<^verbatim>\<open>Lock\<close> and
  \<^verbatim>\<open>Unlock\<close> return success at once, in the world they were called in: no request is
  sent to the remote store, and neither its state nor the list of calls changes.
\<close>

theorem Lock_Unlock_cached:
  assumes "db w = Some d" and "d key = Some e" and "clock w < ExpiresAt e"
  shows "Lock n L gs key w = Some (Ret (None, w)) \<and> Unlock L gs key w = Ret (None, w)"
  using assms by (simp add: Lock_def Unlock_def cached_exists)

theorem Lock_Unlock_cached_witness:
  "Lock 0 (demo_lib Nil_Panics) (mem_gs CleartextIO 0) ''cert/a'' cached_world = Some (Ret (None, cached_world))
   \<and> Unlock (demo_lib Nil_Panics) (mem_gs CleartextIO 0) ''cert/a'' cached_world = Ret (None, cached_world)
   \<and> calls cached_world = []"
  using Lock_Unlock_cached [of cached_world "[''cert/a'' \<mapsto> \<lparr>Value = ''PEM'', ExpiresAt = T0 + Hour\<rparr>]" "''cert/a''" "\<lparr>Value = ''PEM'', ExpiresAt = T0 + Hour\<rparr>" 0 "demo_lib Nil_Panics" "mem_gs CleartextIO 0"]
  by (simp add: cached_world_def mem_world_def Hour_def Minute_def Second_def)

subsection \<open>C5\<close>

text \<open>
  C5. For every key not served from the cache, if fetching the object fails, or reading
  it fails, or the transform fails on the bytes read, \<^verbatim>\<open>Load\<close> returns \<^verbatim>\<open>fs.ErrNotExist\<close>
  in each case, and the cache is as it was.
\<close>

theorem Load_failure_NotFound:
  assumes nc: "isCacheEntryExistent L key w = Ret False"
    and get: "s3_GetObject gs (objName gs key) w = ((r, e), w1)"
    and fails: "e \<noteq> None
       \<or> (\<exists>err w2. s3_ReadAll gs r w1 = (Inl err, w2))
       \<or> (\<exists>raw w2 err. s3_ReadAll gs r w1 = (Inr raw, w2) \<and> IO_WrapReader L (iowrap gs) raw = Inl err)"
  shows "\<exists>w'. Load L gs key w = Ret (Inl ErrNotExist, w') \<and> db w' = db w"
proof (cases e)
  case (Some err)
  with nc get show ?thesis
    by (auto simp: Load_def Load_remote_def dest: s3_GetObject_frame)
next
  case None
  with fails consider
      err w2 where "s3_ReadAll gs r w1 = (Inl err, w2)"
    | raw w2 err where "s3_ReadAll gs r w1 = (Inr raw, w2)" "IO_WrapReader L (iowrap gs) raw = Inl err"
    by blast
  then show ?thesis
  proof cases
    case 1
    with nc get None show ?thesis
      by (auto simp: Load_def Load_remote_def dest!: s3_GetObject_frame s3_ReadAll_frame)
  next
    case 2
    with nc get None show ?thesis
      by (auto simp: Load_def Load_remote_def dest!: s3_GetObject_frame s3_ReadAll_frame)
  qed
qed

theorem Load_failure_NotFound_witness:
  "Load (demo_lib Nil_Panics) (mem_gs (SecretBoxIO ''0123456789abcdef0123456789abcdef'') 0) ''cert/a'' sealed_world
     = Ret (Inl ErrNotExist, sealed_world\<lparr>calls := [Call_GetObject ''certs'' ''p/cert/a'', Call_ReadAll]\<rparr>)
   \<and> Load (demo_lib Nil_Panics) (mem_gs CleartextIO 0) ''cert/b'' sealed_world
     = Ret (Inl ErrNotExist, sealed_world\<lparr>calls := [Call_GetObject ''certs'' ''p/cert/b'', Call_ReadAll]\<rparr>)
   \<and> Load (demo_lib Nil_Panics) (mem_gs CleartextIO 0) long_key sealed_world
     = Ret (Inl ErrNotExist, sealed_world\<lparr>calls := [Call_GetObject ''certs'' (''p/'' @ long_key)]\<rparr>)"
proof -
  let ?L = "demo_lib Nil_Panics" and ?gs = "mem_gs (SecretBoxIO ''0123456789abcdef0123456789abcdef'') 0"
  let ?w1 = "sealed_world\<lparr>calls := [Call_GetObject ''certs'' ''p/cert/a'']\<rparr>"
  let ?w2 = "sealed_world\<lparr>calls := [Call_GetObject ''certs'' ''p/cert/a'', Call_ReadAll]\<rparr>"
  have nc: "isCacheEntryExistent ?L key sealed_world = Ret False" for key
    by (simp add: isCacheEntryExistent_def db_txn_def txn_Get_def sealed_world_def mem_world_def)
  have get: "s3_GetObject ?gs (objName ?gs ''cert/a'') sealed_world = ((Some ''p/cert/a'', None), ?w1)"
    by (simp add: s3_GetObject_def objName_def mem_gs_def mem_client_def valid_name_def sealed_world_def mem_world_def)
  have rd: "s3_ReadAll ?gs (Some ''p/cert/a'') ?w1 = (Inr ''tampered'', ?w2)"
    by (simp add: s3_ReadAll_def mem_gs_def mem_client_def valid_name_def sealed_world_def mem_world_def)
  have unwrap: "IO_WrapReader ?L (iowrap ?gs) ''tampered'' = Inl (Errors_New ''AuthenticationFailed'')"
    by (simp add: mem_gs_def demo_lib_def)
  have fails: "(None::error option) \<noteq> None
       \<or> (\<exists>err w2. s3_ReadAll ?gs (Some ''p/cert/a'') ?w1 = (Inl err, w2))
       \<or> (\<exists>raw w2 err. s3_ReadAll ?gs (Some ''p/cert/a'') ?w1 = (Inr raw, w2) \<and> IO_WrapReader ?L (iowrap ?gs) raw = Inl err)"
    using rd unwrap by blast
  from Load_failure_NotFound [OF nc get fails]
  obtain w' where "Load ?L ?gs ''cert/a'' sealed_world = Ret (Inl ErrNotExist, w')" by blast
  then have a: "Load ?L ?gs ''cert/a'' sealed_world = Ret (Inl ErrNotExist, ?w2)"
    by (simp add: Load_def Load_remote_def nc get rd unwrap)
  let ?gc = "mem_gs CleartextIO 0"
  let ?v1 = "sealed_world\<lparr>calls := [Call_GetObject ''certs'' ''p/cert/b'']\<rparr>"
  let ?v2 = "sealed_world\<lparr>calls := [Call_GetObject ''certs'' ''p/cert/b'', Call_ReadAll]\<rparr>"
  have getb: "s3_GetObject ?gc (objName ?gc ''cert/b'') sealed_world = ((Some ''p/cert/b'', None), ?v1)"
    by (simp add: s3_GetObject_def objName_def mem_gs_def mem_client_def valid_name_def sealed_world_def mem_world_def)
  have rdb: "s3_ReadAll ?gc (Some ''p/cert/b'') ?v1 = (Inl no_such_key, ?v2)"
    by (simp add: s3_ReadAll_def mem_gs_def mem_client_def valid_name_def sealed_world_def mem_world_def)
  have failsb: "(None::error option) \<noteq> None
       \<or> (\<exists>err w2. s3_ReadAll ?gc (Some ''p/cert/b'') ?v1 = (Inl err, w2))
       \<or> (\<exists>raw w2 err. s3_ReadAll ?gc (Some ''p/cert/b'') ?v1 = (Inr raw, w2) \<and> IO_WrapReader ?L (iowrap ?gc) raw = Inl err)"
    using rdb by blast
  from Load_failure_NotFound [OF nc getb failsb]
  obtain w' where "Load ?L ?gc ''cert/b'' sealed_world = Ret (Inl ErrNotExist, w')" by blast
  then have b: "Load ?L ?gc ''cert/b'' sealed_world = Ret (Inl ErrNotExist, ?v2)"
    by (simp add: Load_def Load_remote_def nc getb rdb)
  let ?u1 = "sealed_world\<lparr>calls := [Call_GetObject ''certs'' (''p/'' @ long_key)]\<rparr>"
  have getc: "s3_GetObject ?gc (objName ?gc long_key) sealed_world = ((None, Some invalid_name), ?u1)"
    by (simp add: s3_GetObject_def objName_def mem_gs_def mem_client_def valid_name_def long_key_def
        sealed_world_def mem_world_def)
  have failsc: "Some invalid_name \<noteq> None
       \<or> (\<exists>err w2. s3_ReadAll ?gc None ?u1 = (Inl err, w2))
       \<or> (\<exists>raw w2 err. s3_ReadAll ?gc None ?u1 = (Inr raw, w2) \<and> IO_WrapReader ?L (iowrap ?gc) raw = Inl err)"
    by simp
  from Load_failure_NotFound [OF nc getc failsc]
  obtain w' where "Load ?L ?gc long_key sealed_world = Ret (Inl ErrNotExist, w')" by blast
  then have c: "Load ?L ?gc long_key sealed_world = Ret (Inl ErrNotExist, ?u1)"
    by (simp add: Load_def Load_remote_def nc getc)
  from a b c show ?thesis by simp
qed

subsection \<open>C6\<close>

text \<open>
  C6. \<^verbatim>\<open>Load\<close> looks in the cache first and on a hit returns the cached bytes as they are,
  sending nothing to the remote store. On a miss (no entry, or an expired one) it fetches
  and reads the object, passes it through the transform, stores the plaintext in the cache
  to expire one hour later, and returns the plaintext.
\<close>

theorem Load_read_through:
  "(db w = Some d \<and> d key = Some e \<and> clock w < ExpiresAt e
      \<longrightarrow> Load L gs key w = Ret (Inr (Value e), w))
   \<and> (db w = Some d \<and> txn_Get d (clock w) key = Inl err
        \<and> s3_GetObject gs (objName gs key) w = ((r, None), w1)
        \<and> s3_ReadAll gs r w1 = (Inr raw, w2)
        \<and> IO_WrapReader L (iowrap gs) raw = Inr plain
      \<longrightarrow> Load L gs key w
            = Ret (Inr plain, w2\<lparr>db := Some (d(key \<mapsto> \<lparr>Value = plain, ExpiresAt = clock w2 + 1 * Hour\<rparr>))\<rparr>)
          \<and> calls w2 = calls w @ [Call_GetObject (bucket gs) (objName gs key), Call_ReadAll])"
proof (intro conjI impI)
  assume "db w = Some d \<and> d key = Some e \<and> clock w < ExpiresAt e"
  then show "Load L gs key w = Ret (Inr (Value e), w)"
    by (simp add: Load_cached)
next
  assume a: "db w = Some d \<and> txn_Get d (clock w) key = Inl err
        \<and> s3_GetObject gs (objName gs key) w = ((r, None), w1)
        \<and> s3_ReadAll gs r w1 = (Inr raw, w2)
        \<and> IO_WrapReader L (iowrap gs) raw = Inr plain"
  then have nc: "isCacheEntryExistent L key w = Ret False"
    by (simp add: uncached_exists)
  from a have d2: "db w2 = Some d"
    using s3_GetObject_frame [of gs "objName gs key" w "(r, None)" w1]
      s3_ReadAll_frame [of gs r w1 "Inr raw" w2] by simp
  from a nc d2 show "Load L gs key w
            = Ret (Inr plain, w2\<lparr>db := Some (d(key \<mapsto> \<lparr>Value = plain, ExpiresAt = clock w2 + 1 * Hour\<rparr>))\<rparr>)"
    by (simp add: Load_def Load_remote_def setCacheEntry_def db_txn_def txn_SetEntry_def)
  from a show "calls w2 = calls w @ [Call_GetObject (bucket gs) (objName gs key), Call_ReadAll]"
    using s3_GetObject_frame [of gs "objName gs key" w "(r, None)" w1]
      s3_ReadAll_frame [of gs r w1 "Inr raw" w2] by simp
qed

theorem Load_read_through_witness:
  "Load (demo_lib Nil_Panics) (mem_gs CleartextIO 0) ''cert/a'' cached_world = Ret (Inr ''PEM'', cached_world)
   \<and> Load (demo_lib Nil_Panics) (mem_gs CleartextIO 0) ''cert/a'' stored_world
       = Ret (Inr ''PEM'', stored_world
           \<lparr>db := Some [''cert/a'' \<mapsto> \<lparr>Value = ''PEM'', ExpiresAt = T0 + 1 * Hour\<rparr>],
            calls := [Call_GetObject ''certs'' ''p/cert/a'', Call_ReadAll]\<rparr>)"
proof -
  let ?L = "demo_lib Nil_Panics" and ?gs = "mem_gs CleartextIO 0"
  let ?e = "\<lparr>Value = ''PEM'', ExpiresAt = T0 + Hour\<rparr>"
  let ?w1 = "stored_world\<lparr>calls := [Call_GetObject ''certs'' ''p/cert/a'']\<rparr>"
  let ?w2 = "stored_world\<lparr>calls := [Call_GetObject ''certs'' ''p/cert/a'', Call_ReadAll]\<rparr>"
  have hit: "db cached_world = Some [''cert/a'' \<mapsto> ?e] \<and> [''cert/a'' \<mapsto> ?e] ''cert/a'' = Some ?e
      \<and> clock cached_world < ExpiresAt ?e"
    by (simp add: cached_world_def mem_world_def Hour_def Minute_def Second_def)
  have miss: "db stored_world = Some Map.empty \<and> txn_Get Map.empty (clock stored_world) ''cert/a'' = Inl ErrKeyNotFound
        \<and> s3_GetObject ?gs (objName ?gs ''cert/a'') stored_world = ((Some ''p/cert/a'', None), ?w1)
        \<and> s3_ReadAll ?gs (Some ''p/cert/a'') ?w1 = (Inr ''PEM'', ?w2)
        \<and> IO_WrapReader ?L (iowrap ?gs) ''PEM'' = Inr ''PEM''"
    by (simp add: stored_world_def mem_world_def txn_Get_def s3_GetObject_def s3_ReadAll_def
        objName_def mem_gs_def mem_client_def valid_name_def)
  have a: "Load ?L ?gs ''cert/a'' cached_world = Ret (Inr (Value ?e), cached_world)"
    using Load_read_through [of cached_world "[''cert/a'' \<mapsto> ?e]" "''cert/a''" ?e ?L ?gs] hit
    by blast
  have b: "Load ?L ?gs ''cert/a'' stored_world
      = Ret (Inr ''PEM'', ?w2\<lparr>db := Some (Map.empty(''cert/a'' \<mapsto> \<lparr>Value = ''PEM'', ExpiresAt = clock ?w2 + 1 * Hour\<rparr>))\<rparr>)"
    using Load_read_through [of stored_world Map.empty "''cert/a''" _ ?L ?gs ErrKeyNotFound
        "Some ''p/cert/a''" ?w1 "''PEM''" ?w2 "''PEM''"] miss
    by blast
  from a b show ?thesis
    by (simp add: stored_world_def mem_world_def)
qed

subsection \<open>C7\<close>

text \<open>
  C7. \<^verbatim>\<open>Store\<close> sends one \<^verbatim>\<open>PutObject\<close> with the wrapped value under the object name of
  the key and returns its result; the cache is untouched, so a \<^verbatim>\<open>Load\<close> of the same key
  right after it still returns the cached value while that entry has not expired.
\<close>

theorem Store_leaves_cache:
  "(\<exists>res r'. PutObject (s3client gs) (bucket gs) (objName gs key) (IO_ByteReader L (iowrap gs) val) (remote w) = (res, r')
       \<and> Store L gs key val w
          = (res, w\<lparr>clock := clock w + latency (s3client gs) r', remote := r',
                    calls := calls w @ [Call_PutObject (bucket gs) (objName gs key) (IO_ByteReader L (iowrap gs) val)]\<rparr>))
   \<and> db (snd (Store L gs key val w)) = db w
   \<and> (db w = Some d \<and> d key = Some e \<and> clock (snd (Store L gs key val w)) < ExpiresAt e
        \<longrightarrow> Load L gs key (snd (Store L gs key val w)) = Ret (Inr (Value e), snd (Store L gs key val w)))"
proof (intro conjI impI)
  show "\<exists>res r'. PutObject (s3client gs) (bucket gs) (objName gs key) (IO_ByteReader L (iowrap gs) val) (remote w) = (res, r')
       \<and> Store L gs key val w
          = (res, w\<lparr>clock := clock w + latency (s3client gs) r', remote := r',
                    calls := calls w @ [Call_PutObject (bucket gs) (objName gs key) (IO_ByteReader L (iowrap gs) val)]\<rparr>)"
    by (cases "PutObject (s3client gs) (bucket gs) (objName gs key) (IO_ByteReader L (iowrap gs) val) (remote w)")
       (simp add: Store_def s3_PutObject_def)
  show frame: "db (snd (Store L gs key val w)) = db w"
    by (simp add: Store_def s3_PutObject_def split: prod.splits)
  assume "db w = Some d \<and> d key = Some e \<and> clock (snd (Store L gs key val w)) < ExpiresAt e"
  with frame show "Load L gs key (snd (Store L gs key val w)) = Ret (Inr (Value e), snd (Store L gs key val w))"
    by (simp add: Load_cached)
qed

theorem Store_leaves_cache_witness:
  "Store (demo_lib Nil_Panics) (mem_gs CleartextIO 0) ''cert/a'' ''NEW'' cached_world
     = (None, cached_world\<lparr>remote := [''p/cert/a'' \<mapsto> ''NEW''],
                           calls := [Call_PutObject ''certs'' ''p/cert/a'' ''NEW'']\<rparr>)
   \<and> Load (demo_lib Nil_Panics) (mem_gs CleartextIO 0) ''cert/a''
        (cached_world\<lparr>remote := [''p/cert/a'' \<mapsto> ''NEW''], calls := [Call_PutObject ''certs'' ''p/cert/a'' ''NEW'']\<rparr>)
     = Ret (Inr ''PEM'', cached_world\<lparr>remote := [''p/cert/a'' \<mapsto> ''NEW''],
                           calls := [Call_PutObject ''certs'' ''p/cert/a'' ''NEW'']\<rparr>)"
proof -
  let ?L = "demo_lib Nil_Panics" and ?gs = "mem_gs CleartextIO 0"
  let ?e = "\<lparr>Value = ''PEM'', ExpiresAt = T0 + Hour\<rparr>"
  let ?w' = "cached_world\<lparr>remote := [''p/cert/a'' \<mapsto> ''NEW''], calls := [Call_PutObject ''certs'' ''p/cert/a'' ''NEW'']\<rparr>"
  have st: "Store ?L ?gs ''cert/a'' ''NEW'' cached_world = (None, ?w')"
    by (simp add: Store_def s3_PutObject_def objName_def mem_gs_def mem_client_def valid_name_def cached_world_def mem_world_def)
  have hyp: "db cached_world = Some [''cert/a'' \<mapsto> ?e] \<and> [''cert/a'' \<mapsto> ?e] ''cert/a'' = Some ?e
      \<and> clock (snd (Store ?L ?gs ''cert/a'' ''NEW'' cached_world)) < ExpiresAt ?e"
    unfolding st by (simp add: cached_world_def mem_world_def Hour_def Minute_def Second_def)
  from Store_leaves_cache [of ?gs "''cert/a''" ?L "''NEW''" cached_world "[''cert/a'' \<mapsto> ?e]" ?e] hyp
  have "Load ?L ?gs ''cert/a'' (snd (Store ?L ?gs ''cert/a'' ''NEW'' cached_world))
      = Ret (Inr (Value ?e), snd (Store ?L ?gs ''cert/a'' ''NEW'' cached_world))"
    by blast
  with st show ?thesis by simp
qed

subsection \<open>C8\<close>

text \<open>
  C8. The claim: if opening the cache database fails, every later cache operation behaves
  as if the key were absent, and none panics. The code means to carry on after a failed
  open (\<^verbatim>\<open>getCacheDb\<close> builds the error and drops it; each cache function answers an
  error of its transaction as it answers a missing key), but it keeps the nil handle that came with the
  error and never tests for it, and nothing recovers a panic. Every transaction then
  runs on the nil handle, which the library dereferences: each of the three cache
  functions panics, and with them \<^verbatim>\<open>Lock\<close>, \<^verbatim>\<open>Unlock\<close>, \<^verbatim>\<open>Load\<close> and \<^verbatim>\<open>Stat\<close>, which begin
  with a cache lookup.
\<close>

theorem cache_open_failed_panics:
  assumes "db w = getCacheDb (Inl err)" and "nil_DB L = Nil_Panics"
  shows "isCacheEntryExistent L key w = Panic
     \<and> getCacheEntry L key w = Panic
     \<and> setCacheEntry L key data ttl w = Panic
     \<and> Lock n L gs key w = Some Panic
     \<and> Unlock L gs key w = Panic
     \<and> Load L gs key w = Panic
     \<and> Stat L gs key w = Panic"
  using assms
  by (simp add: getCacheDb_def isCacheEntryExistent_def getCacheEntry_def setCacheEntry_def db_txn_def
      Lock_def Unlock_def Load_def Stat_def)

theorem cache_open_failed_panics_witness:
  "db unopened_world = None
   \<and> isCacheEntryExistent (demo_lib Nil_Panics) ''cert/a'' unopened_world = Panic
   \<and> getCacheEntry (demo_lib Nil_Panics) ''cert/a'' unopened_world = Panic
   \<and> setCacheEntry (demo_lib Nil_Panics) ''cert/a'' ''PEM'' (1 * Hour) unopened_world = Panic
   \<and> Lock 0 (demo_lib Nil_Panics) (mem_gs CleartextIO 0) ''cert/a'' unopened_world = Some Panic
   \<and> Unlock (demo_lib Nil_Panics) (mem_gs CleartextIO 0) ''cert/a'' unopened_world = Panic
   \<and> Load (demo_lib Nil_Panics) (mem_gs CleartextIO 0) ''cert/a'' unopened_world = Panic
   \<and> Stat (demo_lib Nil_Panics) (mem_gs CleartextIO 0) ''cert/a'' unopened_world = Panic"
proof -
  have h1: "db unopened_world = getCacheDb (Inl (Lib_Error ''Cannot acquire directory lock''))"
    by (simp add: unopened_world_def mem_world_def)
  have h2: "nil_DB (demo_lib Nil_Panics) = Nil_Panics"
    by (simp add: demo_lib_def)
  have h3: "db unopened_world = None"
    by (simp add: unopened_world_def mem_world_def getCacheDb_def)
  from cache_open_failed_panics [OF h1 h2] h3 show ?thesis
    by simp
qed

subsection \<open>C9\<close>

text \<open>
  C9. \<^verbatim>\<open>NewS3Storage\<close> fails with the key-length error, before anything is sent, whenever
  the encryption key is present, not empty and not 32 bytes long. With a nil or empty key
  every storage it returns has the cleartext transform, and it returns one whenever the
  client can be made and the bucket exists.
\<close>

theorem NewS3Storage_key_length:
  "(EncryptionKey opts = Some k \<and> length k \<noteq> 0 \<and> length k \<noteq> 32
      \<longrightarrow> NewS3Storage minio_New opts w = (Inl InvalidKeyLength, w))
   \<and> ((EncryptionKey opts = None \<or> EncryptionKey opts = Some [])
      \<longrightarrow> (\<forall>gs w'. NewS3Storage minio_New opts w = (Inr gs, w') \<longrightarrow> iowrap gs = CleartextIO)
        \<and> (\<forall>c r'. minio_New (Endpoint opts) (AccessKeyID opts) (SecretAccessKey opts) = Inr c
                \<and> BucketExists c (Bucket opts) (remote w) = (Inr True, r')
              \<longrightarrow> fst (NewS3Storage minio_New opts w)
                    = Inr \<lparr>prefix = ObjPrefix opts, bucket = Bucket opts, s3client = c, iowrap = CleartextIO\<rparr>))"
  by (auto simp: NewS3Storage_def s3_BucketExists_def Let_def split: sum.splits prod.splits if_splits)

theorem NewS3Storage_key_length_witness:
  "NewS3Storage (\<lambda>ep ak sk. Inr (mem_client 0)) (demo_opts (Some ''0123456789abcdef'')) (mem_world T0 (Some Map.empty) Map.empty)
     = (Inl InvalidKeyLength, mem_world T0 (Some Map.empty) Map.empty)
   \<and> fst (NewS3Storage (\<lambda>ep ak sk. Inr (mem_client 0)) (demo_opts None) (mem_world T0 (Some Map.empty) Map.empty))
     = Inr (mem_gs CleartextIO 0)"
proof -
  let ?mn = "\<lambda>ep ak sk. Inr (mem_client 0) :: error + (mem, string option) Client"
  let ?w = "mem_world T0 (Some Map.empty) Map.empty"
  have a: "EncryptionKey (demo_opts (Some ''0123456789abcdef'')) = Some ''0123456789abcdef''
      \<and> length ''0123456789abcdef'' \<noteq> 0 \<and> length ''0123456789abcdef'' \<noteq> 32"
    by (simp add: demo_opts_def)
  have b: "EncryptionKey (demo_opts None) = None \<or> EncryptionKey (demo_opts None) = Some []"
    by (simp add: demo_opts_def)
  have c: "?mn (Endpoint (demo_opts None)) (AccessKeyID (demo_opts None)) (SecretAccessKey (demo_opts None)) = Inr (mem_client 0)
        \<and> BucketExists (mem_client 0) (Bucket (demo_opts None)) (remote ?w) = (Inr True, Map.empty)"
    by (simp add: mem_client_def valid_name_def mem_world_def)
  have "NewS3Storage ?mn (demo_opts (Some ''0123456789abcdef'')) ?w = (Inl InvalidKeyLength, ?w)"
    using NewS3Storage_key_length [of "demo_opts (Some ''0123456789abcdef'')" "''0123456789abcdef''" ?mn ?w] a
    by blast
  moreover have "fst (NewS3Storage ?mn (demo_opts None) ?w)
      = Inr \<lparr>prefix = ObjPrefix (demo_opts None), bucket = Bucket (demo_opts None), s3client = mem_client 0, iowrap = CleartextIO\<rparr>"
    using NewS3Storage_key_length [of "demo_opts None" _ ?mn ?w] b c
    by blast
  ultimately show ?thesis
    by (simp add: demo_opts_def mem_gs_def)
qed

subsection \<open>C10\<close>

text \<open>
  C10. Payload and metadata share one cache namespace. When \<^verbatim>\<open>Stat\<close> of \<open>k\<close> misses the
  cache, gets the object's metadata and encodes the \<^verbatim>\<open>KeyInfo\<close>, it stores the JSON bytes
  under \<open>k @ ''_ki''\<close> for one hour. From then until the hour has passed, \<^verbatim>\<open>Load\<close> of the
  key \<open>k @ ''_ki''\<close> returns those JSON bytes, and \<^verbatim>\<open>Lock\<close> and \<^verbatim>\<open>Unlock\<close> of it return
  success, all three without a request to the remote store.
\<close>

theorem Stat_entry_serves_Load_and_Lock:
  assumes op: "db w = Some d"
    and miss: "txn_Get d (clock w) (key @ ''_ki'') = Inl err"
    and stat: "s3_StatObject gs (objName gs key) w = (Inr oi, w1)"
    and js: "json_Marshal L \<lparr>Key = key, Modified = LastModified oi, Size = oi_Size oi, IsTerminal = True\<rparr> = Inr jsonKi"
    and ttl: "dt < 1 * Hour"
  shows "\<exists>ki w'. Stat L gs key w = Ret ((ki, None), w')
     \<and> db w' = Some (d(key @ ''_ki'' \<mapsto> \<lparr>Value = jsonKi, ExpiresAt = clock w1 + 1 * Hour\<rparr>))
     \<and> Load L gs' (key @ ''_ki'') (time_Sleep dt w') = Ret (Inr jsonKi, time_Sleep dt w')
     \<and> Lock n L gs' (key @ ''_ki'') (time_Sleep dt w') = Some (Ret (None, time_Sleep dt w'))
     \<and> Unlock L gs' (key @ ''_ki'') (time_Sleep dt w') = Ret (None, time_Sleep dt w')"
proof -
  let ?ki = "\<lparr>Key = key, Modified = LastModified oi, Size = oi_Size oi, IsTerminal = True\<rparr>"
  let ?e = "\<lparr>Value = jsonKi, ExpiresAt = clock w1 + 1 * Hour\<rparr>"
  let ?w' = "w1\<lparr>db := Some (d(key @ ''_ki'' \<mapsto> ?e))\<rparr>"
  from stat op have d1: "db w1 = Some d"
    using s3_StatObject_frame [of gs "objName gs key" w "Inr oi" w1] by simp
  have nc: "isCacheEntryExistent L (key @ ''_ki'') w = Ret False"
    using op miss by (rule uncached_exists)
  have st: "Stat L gs key w = Ret ((?ki, None), ?w')"
    using nc stat js d1
    by (simp add: Stat_def Stat_remote_def zero_KeyInfo_def setCacheEntry_def db_txn_def txn_SetEntry_def)
  have c1: "db (time_Sleep dt ?w') = Some (d(key @ ''_ki'' \<mapsto> ?e))"
    by (simp add: time_Sleep_def)
  have c2: "(d(key @ ''_ki'' \<mapsto> ?e)) (key @ ''_ki'') = Some ?e"
    by simp
  have c3: "clock (time_Sleep dt ?w') < ExpiresAt ?e"
    using ttl by (simp add: time_Sleep_def)
  have "Load L gs' (key @ ''_ki'') (time_Sleep dt ?w') = Ret (Inr (Value ?e), time_Sleep dt ?w')"
    using c1 c2 c3 by (rule Load_cached)
  moreover have "Lock n L gs' (key @ ''_ki'') (time_Sleep dt ?w') = Some (Ret (None, time_Sleep dt ?w'))"
    using c1 c2 c3 by (simp add: Lock_def cached_exists)
  moreover have "Unlock L gs' (key @ ''_ki'') (time_Sleep dt ?w') = Ret (None, time_Sleep dt ?w')"
    using c1 c2 c3 by (simp add: Unlock_def cached_exists)
  ultimately show ?thesis
    using st by simp
qed

theorem Stat_entry_serves_Load_and_Lock_witness:
  "Stat (demo_lib Nil_Panics) (mem_gs CleartextIO 0) ''cert/a'' stored_world
     = Ret ((\<lparr>Key = ''cert/a'', Modified = T0, Size = 3, IsTerminal = True\<rparr>, None),
            stored_world\<lparr>db := Some [''cert/a_ki'' \<mapsto> \<lparr>Value = ''{key:cert/a}'', ExpiresAt = T0 + 1 * Hour\<rparr>],
                         calls := [Call_StatObject ''certs'' ''p/cert/a'']\<rparr>)
   \<and> (\<exists>w'. db w' = Some [''cert/a_ki'' \<mapsto> \<lparr>Value = ''{key:cert/a}'', ExpiresAt = T0 + 1 * Hour\<rparr>]
         \<and> Load (demo_lib Nil_Panics) (mem_gs CleartextIO 0) ''cert/a_ki'' (time_Sleep (30 * Minute) w')
             = Ret (Inr ''{key:cert/a}'', time_Sleep (30 * Minute) w')
         \<and> Lock 0 (demo_lib Nil_Panics) (mem_gs CleartextIO 0) ''cert/a_ki'' (time_Sleep (30 * Minute) w')
             = Some (Ret (None, time_Sleep (30 * Minute) w'))
         \<and> Unlock (demo_lib Nil_Panics) (mem_gs CleartextIO 0) ''cert/a_ki'' (time_Sleep (30 * Minute) w')
             = Ret (None, time_Sleep (30 * Minute) w'))"
proof -
  let ?L = "demo_lib Nil_Panics" and ?gs = "mem_gs CleartextIO 0"
  let ?w1 = "stored_world\<lparr>calls := [Call_StatObject ''certs'' ''p/cert/a'']\<rparr>"
  let ?oi = "\<lparr>oi_Size = 3, LastModified = T0\<rparr>"
  have op: "db stored_world = Some Map.empty"
    by (simp add: stored_world_def mem_world_def)
  have miss: "txn_Get Map.empty (clock stored_world) (''cert/a'' @ ''_ki'') = Inl ErrKeyNotFound"
    by (simp add: txn_Get_def)
  have stat: "s3_StatObject ?gs (objName ?gs ''cert/a'') stored_world = (Inr ?oi, ?w1)"
    by (simp add: s3_StatObject_def objName_def mem_gs_def mem_client_def valid_name_def stored_world_def mem_world_def)
  have js: "json_Marshal ?L \<lparr>Key = ''cert/a'', Modified = LastModified ?oi, Size = oi_Size ?oi, IsTerminal = True\<rparr>
      = Inr ''{key:cert/a}''"
    by (simp add: demo_lib_def)
  have ttl: "30 * Minute < 1 * Hour"
    by (simp add: Hour_def Minute_def Second_def)
  have c1: "clock ?w1 = T0"
    by (simp add: stored_world_def mem_world_def)
  from Stat_entry_serves_Load_and_Lock [OF op miss stat js ttl, of ?gs 0]
  obtain ki w' where st: "Stat ?L ?gs ''cert/a'' stored_world = Ret ((ki, None), w')"
    and rest: "db w' = Some [''cert/a_ki'' \<mapsto> \<lparr>Value = ''{key:cert/a}'', ExpiresAt = T0 + 1 * Hour\<rparr>]
      \<and> Load ?L ?gs ''cert/a_ki'' (time_Sleep (30 * Minute) w') = Ret (Inr ''{key:cert/a}'', time_Sleep (30 * Minute) w')
      \<and> Lock 0 ?L ?gs ''cert/a_ki'' (time_Sleep (30 * Minute) w') = Some (Ret (None, time_Sleep (30 * Minute) w'))
      \<and> Unlock ?L ?gs ''cert/a_ki'' (time_Sleep (30 * Minute) w') = Ret (None, time_Sleep (30 * Minute) w')"
    unfolding c1 by auto
  have "Stat ?L ?gs ''cert/a'' stored_world
     = Ret ((\<lparr>Key = ''cert/a'', Modified = T0, Size = 3, IsTerminal = True\<rparr>, None),
            stored_world\<lparr>db := Some [''cert/a_ki'' \<mapsto> \<lparr>Value = ''{key:cert/a}'', ExpiresAt = T0 + 1 * Hour\<rparr>],
                         calls := [Call_StatObject ''certs'' ''p/cert/a'']\<rparr>)"
    by (simp add: Stat_def Stat_remote_def isCacheEntryExistent_def db_txn_def txn_Get_def
        setCacheEntry_def txn_SetEntry_def zero_KeyInfo_def
        s3_StatObject_def objName_def mem_gs_def mem_client_def valid_name_def demo_lib_def stored_world_def mem_world_def)
  with rest show ?thesis by blast
qed

end
